theory Spec2Isabelle
  imports Main
begin

section \<open>Type-level utilities of generics.ts\<close>

text \<open>
  The file \<^verbatim>\<open>src/generics.ts\<close> declares type aliases only: each one is a function
  from types to a type, evaluated by the type checker. The development below embeds
  these functions over a datatype of types, together with the values a type accepts.

  The fragment of the type language that is covered: the primitive types, literal
  types, object shapes (named members with their \<^verbatim>\<open>?\<close> and \<^verbatim>\<open>readonly\<close> modifiers and
  an optional string index signature), arrays and tuples (mutable or readonly), unions
  and intersections. Function types, generics, \<^verbatim>\<open>any\<close>, optional and rest elements
  of tuples are outside it. The checker options assumed are \<^verbatim>\<open>strictNullChecks\<close> on
  and \<^verbatim>\<open>exactOptionalPropertyTypes\<close> off.
\<close>

subsection \<open>Types\<close>

text \<open>
  A member name is a string or a unique symbol (\<^verbatim>\<open>declare const __brand: unique symbol\<close>,
  line 93).
\<close>

datatype key = KName string | KSymbol string

record modifiers =
  optional :: bool
  readonly :: bool

text \<open>
  \<open>TObject members index\<close> is an object type with its declared members and, when
  \<open>index = Some t\<close>, the index signature \<^verbatim>\<open>[key: string]: t\<close>. The flag of \<open>TArray\<close> and
  \<open>TTuple\<close> says whether the type is \<^verbatim>\<open>readonly\<close>. Number literals are the integral ones.
\<close>

datatype ty =
    TString
  | TNumber
  | TBoolean
  | TNull
  | TUndefined
  | TUnknown
  | TNever
  | TStringLit string
  | TNumberLit int
  | TBooleanLit bool
  | TObject "(key \<times> modifiers \<times> ty) list" "ty option"
  | TArray bool ty
  | TTuple bool "ty list"
  | TUnion "ty list"
  | TIntersection ty ty

type_synonym shape = "(key \<times> modifiers \<times> ty) list"

definition required :: modifiers where
  "required = \<lparr>optional = False, readonly = False\<rparr>"

subsection \<open>Values and acceptance\<close>

text \<open>
  A value, as the checker sees it, is a base (a primitive, an object, a function or an
  array) together with the members it carries. A raw primitive carries none; a string that was
  cast to a branded type carries the brand member, which exists for the checker only.
  The members that the standard library declares for primitives, functions and arrays
  (\<^verbatim>\<open>length\<close> and the methods) are not modelled; those that every object inherits
  from the global \<^verbatim>\<open>Object\<close> interface are \<open>object_members\<close> below.
\<close>

datatype 'v base =
    BUndefined
  | BNull
  | BBoolean bool
  | BNumber int
  | BString string
  | BObject
  | BFunction
  | BArray "'v list"

datatype val = Val "val base" "(key \<times> val) list"

fun base_of :: "val \<Rightarrow> val base" where
  "base_of (Val b ms) = b"

fun members_of :: "val \<Rightarrow> (key \<times> val) list" where
  "members_of (Val b ms) = ms"

definition str :: "string \<Rightarrow> val" where
  "str s = Val (BString s) []"

definition num :: "int \<Rightarrow> val" where
  "num n = Val (BNumber n) []"

definition obj :: "(key \<times> val) list \<Rightarrow> val" where
  "obj ms = Val BObject ms"

text \<open>
  \<open>accepts t v\<close>: the value \<open>v\<close> conforms to the type \<open>t\<close>. Acceptance is structural:
  an object type constrains the members it declares and nothing else, a required
  member must be present, an optional one may be absent or \<^verbatim>\<open>undefined\<close>, and
  \<^verbatim>\<open>null\<close> and \<^verbatim>\<open>undefined\<close> conform to no object type. An index signature asks for an
  object whose string-named members all conform to its type.

  \<open>accepts\<close> is the structural part of the checker's assignability relation. The
  checker's weak type detection is added by \<open>assignable\<close> below; the excess-property
  check that the checker runs on fresh object literals only is not modelled.
\<close>

fun accepts :: "ty \<Rightarrow> val \<Rightarrow> bool" where
  "accepts TString v = (case base_of v of BString s \<Rightarrow> True | _ \<Rightarrow> False)"
| "accepts TNumber v = (case base_of v of BNumber n \<Rightarrow> True | _ \<Rightarrow> False)"
| "accepts TBoolean v = (case base_of v of BBoolean b \<Rightarrow> True | _ \<Rightarrow> False)"
| "accepts TNull v = (base_of v = BNull)"
| "accepts TUndefined v = (base_of v = BUndefined)"
| "accepts TUnknown v = True"
| "accepts TNever v = False"
| "accepts (TStringLit s) v = (base_of v = BString s)"
| "accepts (TNumberLit n) v = (base_of v = BNumber n)"
| "accepts (TBooleanLit b) v = (base_of v = BBoolean b)"
| "accepts (TObject props idx) v =
     (base_of v \<noteq> BUndefined \<and> base_of v \<noteq> BNull \<and>
      list_all (\<lambda>(k, m, t).
         case map_of (members_of v) k of
           None \<Rightarrow> optional m
         | Some w \<Rightarrow> accepts t w \<or> (optional m \<and> base_of w = BUndefined)) props \<and>
      (case idx of
         None \<Rightarrow> True
       | Some t \<Rightarrow> base_of v = BObject \<and>
                  list_all (\<lambda>(k, w). case k of KName n \<Rightarrow> accepts t w | KSymbol n \<Rightarrow> True)
                    (members_of v)))"
| "accepts (TArray ro t) v =
     (case base_of v of BArray xs \<Rightarrow> list_all (accepts t) xs | _ \<Rightarrow> False)"
| "accepts (TTuple ro ts) v =
     (case base_of v of BArray xs \<Rightarrow> list_all2 accepts ts xs | _ \<Rightarrow> False)"
| "accepts (TUnion ts) v = list_ex (\<lambda>t. accepts t v) ts"
| "accepts (TIntersection a b) v = (accepts a v \<and> accepts b v)"

text \<open>The check of one declared member against the members of a value, by name.\<close>

definition member_ok :: "(key \<times> val) list \<Rightarrow> key \<times> modifiers \<times> ty \<Rightarrow> bool" where
  "member_ok ms p =
     (case p of (k, m, t) \<Rightarrow>
        (case map_of ms k of
           None \<Rightarrow> optional m
         | Some w \<Rightarrow> accepts t w \<or> (optional m \<and> base_of w = BUndefined)))"

subsection \<open>Assignment of an object\<close>

text \<open>
  Every object inherits the members of the global \<^verbatim>\<open>Object\<close> interface of the standard
  library (\<^verbatim>\<open>constructor\<close> and six methods); the checker looks a member up among the
  own members of the object first and among the inherited ones after. Their values
  are functions.
\<close>

definition object_members :: "(key \<times> val) list" where
  "object_members =
     map (\<lambda>n. (KName n, Val BFunction []))
       [''constructor'', ''toString'', ''toLocaleString'', ''valueOf'', ''hasOwnProperty'',
        ''isPrototypeOf'', ''propertyIsEnumerable'']"

text \<open>
  Weak type detection. A type is weak when it is an object type with at least one
  member, all of its members optional and no index signature, or an intersection of
  weak types. \<open>known T k\<close> says that \<open>T\<close> declares a member \<open>k\<close>, in one of its
  constituents when it is a union or an intersection.
\<close>

fun weak :: "ty \<Rightarrow> bool" where
  "weak (TObject props idx) =
     (idx = None \<and> props \<noteq> [] \<and> list_all (\<lambda>(k, m, t). optional m) props)"
| "weak (TIntersection a b) = (weak a \<and> weak b)"
| "weak t = False"

fun known :: "ty \<Rightarrow> key \<Rightarrow> bool" where
  "known (TObject props idx) k = (k \<in> set (map fst props) \<or> idx \<noteq> None)"
| "known (TUnion ts) k = list_ex (\<lambda>t. known t k) ts"
| "known (TIntersection a b) k = (known a k \<or> known b k)"
| "known t k = False"

text \<open>
  \<open>assignable T ms\<close>: the checker accepts an object with the own members \<open>ms\<close> where
  a \<open>T\<close> is required, \<open>T\<close> an object type or an intersection of object types. The
  object conforms to \<open>T\<close>, and when \<open>T\<close> is weak and the object has a member of its
  own, one of its own members is known to \<open>T\<close> (otherwise the checker reports that the
  two have no properties in common). The object is not a fresh literal: it is held in
  a variable, so the excess-property check does not run.
\<close>

definition assignable :: "ty \<Rightarrow> (key \<times> val) list \<Rightarrow> bool" where
  "assignable T ms =
     (accepts T (Val BObject (ms @ object_members)) \<and>
      (if weak T \<and> ms \<noteq> [] then list_ex (\<lambda>(k, w). known T k) ms else True))"

subsection \<open>The standard mapped types the aliases use\<close>

text \<open>
  \<^verbatim>\<open>keyof\<close>, \<^verbatim>\<open>Partial\<close>, \<^verbatim>\<open>Pick\<close>, \<^verbatim>\<open>Exclude\<close> and \<^verbatim>\<open>Omit\<close> belong to the language and its
  standard library, here on object shapes and sets of member names:
  \<^verbatim>\<open>type Partial<T> = { [P in keyof T]?: T[P] }\<close>,
  \<^verbatim>\<open>type Pick<T, K extends keyof T> = { [P in K]: T[P] }\<close>,
  \<^verbatim>\<open>type Exclude<T, U> = T extends U ? never : T\<close>,
  \<^verbatim>\<open>type Omit<T, K> = Pick<T, Exclude<keyof T, K>>\<close>.
  \<^verbatim>\<open>Partial\<close> and \<^verbatim>\<open>Pick\<close> are homomorphic mapped types: they copy the modifiers of the
  members of \<^verbatim>\<open>T\<close>, and \<^verbatim>\<open>Partial\<close> then adds \<^verbatim>\<open>?\<close>.
\<close>

definition keyof :: "shape \<Rightarrow> key list" where
  "keyof T = map fst T"

definition Partial :: "shape \<Rightarrow> shape" where
  "Partial T = map (\<lambda>(k, m, t). (k, m\<lparr>optional := True\<rparr>, t)) T"

definition Pick :: "shape \<Rightarrow> key set \<Rightarrow> shape" where
  "Pick T K = filter (\<lambda>(k, m, t). k \<in> K) T"



text \<open>
  The checker keeps a union flat: it has no union and no \<^verbatim>\<open>never\<close> among its members,
  no member twice, and an intersection with a union member is the union of the
  intersections. \<open>constituents\<close> lists the members of a type read that way, and
  \<open>union_of\<close> builds the union of a list of types.
\<close>

fun constituents :: "ty \<Rightarrow> ty list" where
  "constituents (TUnion ts) = concat (map constituents ts)"
| "constituents (TIntersection a b) =
     concat (map (\<lambda>x. map (\<lambda>y. TIntersection x y) (constituents b)) (constituents a))"
| "constituents t = [t]"

definition union_of :: "ty list \<Rightarrow> ty" where
  "union_of ts =
     (case remdups (filter (\<lambda>t. t \<noteq> TNever) (concat (map constituents ts))) of
        [] \<Rightarrow> TNever
      | [t] \<Rightarrow> t
      | us \<Rightarrow> TUnion us)"

text \<open>
  The indexed access \<^verbatim>\<open>T[k]\<close>: the declared type of the member \<open>k\<close>, with \<^verbatim>\<open>undefined\<close>
  added when the member is optional. A name that \<open>T\<close> does not declare is an error.
\<close>

definition index_access :: "shape \<Rightarrow> key \<Rightarrow> ty option" where
  "index_access T k =
     (case map_of T k of
        None \<Rightarrow> None
      | Some (m, t) \<Rightarrow> Some (if optional m then union_of [t, TUndefined] else t))"

subsection \<open>The aliases\<close>



text \<open>
  Line 44: \<^verbatim>\<open>type SomeRequired<T, K extends keyof T> = Pick<T, K> & Partial<T>\<close>.
  The checker rejects an instantiation whose \<open>K\<close> names a member that \<open>T\<close> does not
  have: the result is \<open>None\<close>.
\<close>

definition SomeRequired :: "shape \<Rightarrow> key set \<Rightarrow> ty option" where
  "SomeRequired T K =
     (if K \<subseteq> set (keyof T)
      then Some (TIntersection (TObject (Pick T K) None) (TObject (Partial T) None))
      else None)"


text \<open>
  Line 75: \<^verbatim>\<open>type ObjectValues<T> = T[keyof T]\<close>. An indexed access by a union of names
  is the union of the accesses by each name.
\<close>

definition ObjectValues :: "shape \<Rightarrow> ty" where
  "ObjectValues T = union_of (List.map_filter (index_access T) (keyof T))"

text \<open>Line 90: \<^verbatim>\<open>type ObjectKeys<T> = keyof T\<close>.\<close>

definition ObjectKeys :: "shape \<Rightarrow> key list" where
  "ObjectKeys T = keyof T"

text \<open>
  Lines 93 and 94: \<^verbatim>\<open>declare const __brand: unique symbol\<close> and
  \<^verbatim>\<open>type Brand<B> = { [__brand]: B }\<close>.
\<close>

definition brand :: key where
  "brand = KSymbol ''__brand''"

definition Brand :: "ty \<Rightarrow> ty" where
  "Brand B = TObject [(brand, required, B)] None"

text \<open>Line 103: \<^verbatim>\<open>type Serialized<T> = string & Brand<T>\<close>.\<close>

definition Serialized :: "ty \<Rightarrow> ty" where
  "Serialized T = TIntersection TString (Brand T)"

text \<open>
  Line 122: \<^verbatim>\<open>type Unionize<T> = T extends readonly (infer U)[] ? U : never\<close>.

  \<open>infer_element t\<close> is the test \<^verbatim>\<open>t extends readonly (infer U)[]\<close> on a type that is not
  a union: \<open>Some U\<close> when \<open>t\<close> is assignable to a readonly array, with the element
  type inferred for \<open>U\<close>, and \<open>None\<close> otherwise. A mutable array or tuple is assignable
  to the readonly one, so the flag is ignored. The elements of a tuple are inferred
  as the union of its element types. An intersection is assignable when one of its
  members is, and the element type is inferred from the last such member
  (\<^verbatim>\<open>string[] & number[]\<close> gives \<^verbatim>\<open>number\<close>).

  The checked type of the conditional is the bare parameter \<^verbatim>\<open>T\<close>, so the conditional
  distributes: it is evaluated on each constituent of \<^verbatim>\<open>T\<close>, and the results are
  joined in a union. \<open>Unionize\<close> has no constraint on \<^verbatim>\<open>T\<close> and no error case.
\<close>

fun infer_element :: "ty \<Rightarrow> ty option" where
  "infer_element (TArray ro t) = Some t"
| "infer_element (TTuple ro ts) = Some (union_of ts)"
| "infer_element (TIntersection a b) =
     (case infer_element b of
        None \<Rightarrow> infer_element a
      | Some w \<Rightarrow> Some w)"
| "infer_element t = None"

definition Unionize :: "ty \<Rightarrow> ty" where
  "Unionize T =
     union_of (map (\<lambda>c. case infer_element c of Some U \<Rightarrow> U | None \<Rightarrow> TNever) (constituents T))"

subsection \<open>Shapes as the specification words them\<close>




text \<open>A type is a sequence type when it is an array or a tuple type.\<close>

fun is_sequence :: "ty \<Rightarrow> bool" where
  "is_sequence (TArray ro t) = True"
| "is_sequence (TTuple ro ts) = True"
| "is_sequence t = False"

subsection \<open>The examples of the documentation\<close>

text \<open>
  \<^verbatim>\<open>type Test = { foo: string; bar: string; baz: string }\<close> (lines 26 to 30),
  the constant \<^verbatim>\<open>{ INFO: "info", WARN: "warn" } as const\<close> and the tuple
  \<^verbatim>\<open>["foo", "bar", "baz"] as const\<close> (line 113); and two shapes with an optional
  member, \<^verbatim>\<open>{ a?: string; b: string }\<close> and \<^verbatim>\<open>{ a?: string; b: string; c: string }\<close>.
\<close>

definition Test :: shape where
  "Test = [(KName ''foo'', required, TString), (KName ''bar'', required, TString),
           (KName ''baz'', required, TString)]"

definition LogLevel :: shape where
  "LogLevel = [(KName ''INFO'', \<lparr>optional = False, readonly = True\<rparr>, TStringLit ''info''),
               (KName ''WARN'', \<lparr>optional = False, readonly = True\<rparr>, TStringLit ''warn'')]"

definition OptA :: shape where
  "OptA = [(KName ''a'', \<lparr>optional = True, readonly = False\<rparr>, TString),
           (KName ''b'', required, TString)]"


definition things :: ty where
  "things = TTuple True [TStringLit ''foo'', TStringLit ''bar'', TStringLit ''baz'']"


section \<open>Helper lemmas\<close>

lemma accepts_constituents:
  "list_ex (\<lambda>c. accepts c v) (constituents t) = accepts t v"
  by (induction t) (auto simp: list_ex_iff)

lemma accepts_union_of:
  "accepts (union_of ts) v = list_ex (\<lambda>t. accepts t v) ts"
proof -
  define us where "us = remdups (filter (\<lambda>t. t \<noteq> TNever) (concat (map constituents ts)))"
  have "(\<exists>u \<in> set us. accepts u v) = (\<exists>t \<in> set ts. \<exists>c \<in> set (constituents t). accepts c v)"
    unfolding us_def by auto
  also have "\<dots> = (\<exists>t \<in> set ts. accepts t v)"
    using accepts_constituents [of v] by (simp add: list_ex_iff)
  finally have *: "(\<exists>u \<in> set us. accepts u v) = list_ex (\<lambda>t. accepts t v) ts"
    by (simp add: list_ex_iff)
  have "accepts (union_of ts) v = (\<exists>u \<in> set us. accepts u v)"
    unfolding union_of_def us_def [symmetric]
    by (cases us rule: remdups_adj.cases) (auto simp: list_ex_iff)
  with * show ?thesis by simp
qed

lemma accepts_closed_shape:
  "accepts (TObject props None) v =
     (base_of v \<noteq> BUndefined \<and> base_of v \<noteq> BNull \<and> list_all (member_ok (members_of v)) props)"
proof -
  have "member_ok (members_of v) =
        (\<lambda>(k, m, t). case map_of (members_of v) k of
           None \<Rightarrow> optional m
         | Some w \<Rightarrow> accepts t w \<or> (optional m \<and> base_of w = BUndefined))"
    by (rule ext) (simp add: member_ok_def)
  then show ?thesis by simp
qed

lemma member_ok_optional:
  "member_ok ms (k, m, t) \<Longrightarrow> member_ok ms (k, m\<lparr>optional := True\<rparr>, t)"
  by (auto simp: member_ok_def split: option.splits)




lemma Pick_all: "Pick T (set (keyof T)) = T"
  unfolding Pick_def keyof_def by (simp add: filter_id_conv) (auto simp: rev_image_eqI)

lemma members_Partial:
  "list_all (member_ok ms) T \<Longrightarrow> list_all (member_ok ms) (Partial T)"
  unfolding Partial_def by (induction T) (auto intro: member_ok_optional)




lemma map_filter_map_Some:
  "(\<And>x. x \<in> set xs \<Longrightarrow> f (h x) = Some (g x)) \<Longrightarrow> List.map_filter f (map h xs) = map g xs"
  by (induction xs) (simp_all add: map_filter_simps)

lemma ObjectValues_members:
  assumes "distinct (keyof T)"
  shows "ObjectValues T =
    union_of (map (\<lambda>(k, m, t). if optional m then union_of [t, TUndefined] else t) T)"
proof -
  have "index_access T (fst p) =
      Some ((\<lambda>(k, m, t). if optional m then union_of [t, TUndefined] else t) p)"
    if "p \<in> set T" for p
  proof -
    obtain k m t where p: "p = (k, m, t)" by (cases p)
    from assms that have "map_of T k = Some (m, t)"
      unfolding keyof_def p by simp
    then show ?thesis by (simp add: index_access_def p)
  qed
  then show ?thesis
    unfolding ObjectValues_def keyof_def by (simp add: map_filter_map_Some)
qed

lemma constituents_atom:
  "c \<in> set (constituents t) \<Longrightarrow> constituents c = [c]"
proof (induction t arbitrary: c)
  case (TUnion ts)
  from TUnion.prems obtain x where x: "x \<in> set ts" and c: "c \<in> set (constituents x)"
    by auto
  from TUnion.IH [OF x c] show ?case .
next
  case (TIntersection a b)
  from TIntersection.prems obtain x y where c: "c = TIntersection x y"
    and x: "x \<in> set (constituents a)" and y: "y \<in> set (constituents b)"
    by auto
  from TIntersection.IH(1) [OF x] TIntersection.IH(2) [OF y] show ?case
    by (simp add: c)
next
  case (TObject props idx)
  from TObject.prems show ?case by simp
next
  case (TArray ro t)
  from TArray.prems show ?case by simp
next
  case (TTuple ro ts)
  from TTuple.prems show ?case by simp
qed simp_all

lemma concat_atoms:
  "\<forall>u \<in> set us. constituents u = [u] \<Longrightarrow> concat (map constituents us) = us"
  by (induction us) auto

lemma union_of_atoms:
  assumes "\<forall>u \<in> set us. constituents u = [u]" and "\<forall>u \<in> set us. u \<noteq> TNever"
    and "distinct us"
  shows "union_of us = (case us of [] \<Rightarrow> TNever | [t] \<Rightarrow> t | t # r \<Rightarrow> TUnion us)"
proof -
  have "remdups (filter (\<lambda>t. t \<noteq> TNever) (concat (map constituents us))) = us"
    using concat_atoms [OF assms(1)] assms(2,3)
    by (simp add: distinct_remdups_id filter_id_conv)
  then show ?thesis
    unfolding union_of_def by (simp split: list.splits)
qed

lemma union_of_TUnion: "union_of [TUnion us] = union_of us"
  by (simp add: union_of_def)

lemma union_of_idem: "union_of [union_of ts] = union_of ts"
proof -
  define us where "us = remdups (filter (\<lambda>t. t \<noteq> TNever) (concat (map constituents ts)))"
  have atoms: "\<forall>u \<in> set us. constituents u = [u]"
    unfolding us_def using constituents_atom by auto
  have nn: "\<forall>u \<in> set us. u \<noteq> TNever"
    unfolding us_def by auto
  have d: "distinct us"
    unfolding us_def by simp
  have u: "union_of ts = (case us of [] \<Rightarrow> TNever | [t] \<Rightarrow> t | t # r \<Rightarrow> TUnion us)"
    unfolding union_of_def us_def by (simp split: list.splits)
  have a: "union_of us = (case us of [] \<Rightarrow> TNever | [t] \<Rightarrow> t | t # r \<Rightarrow> TUnion us)"
    by (rule union_of_atoms [OF atoms nn d])
  have ts: "union_of ts = union_of us"
    by (simp only: u a)
  have "union_of [union_of us] = union_of us"
  proof (cases us)
    case Nil
    have "union_of [] = TNever" by (simp add: union_of_def)
    moreover have "union_of [TNever] = TNever" by (simp add: union_of_def)
    ultimately show ?thesis unfolding Nil by simp
  next
    case (Cons t r)
    show ?thesis
    proof (cases r)
      case Nil
      from a have "union_of [t] = t"
        unfolding Cons Nil by (simp only: list.case)
      then show ?thesis unfolding Cons Nil by (simp only:)
    next
      case (Cons t2 r2)
      from a have "union_of (t # t2 # r2) = TUnion (t # t2 # r2)"
        unfolding \<open>us = t # r\<close> Cons by (simp only: list.case)
      then show ?thesis
        unfolding \<open>us = t # r\<close> Cons by (simp only: union_of_TUnion)
    qed
  qed
  then show ?thesis by (simp only: ts)
qed











section \<open>Selective requirement\<close>




text \<open>
  C5. Every member named in \<open>K\<close> is said to be required in \<open>SomeRequired T K\<close>, also
  when \<open>T\<close> declares it optional. The code does not do that: for
  \<^verbatim>\<open>T = { a?: string; b: string }\<close> and \<open>K = {a}\<close> the alias resolves to
  \<^verbatim>\<open>{ a?: string } & { a?: string; b?: string }\<close>, in which \<^verbatim>\<open>a\<close> is optional, and the
  objects \<^verbatim>\<open>{}\<close> and \<^verbatim>\<open>{ b: "x" }\<close>, which omit \<^verbatim>\<open>a\<close>, are accepted.
\<close>

theorem SomeRequired_optional_member:
  "SomeRequired OptA {KName ''a''} =
     Some (TIntersection
       (TObject [(KName ''a'', \<lparr>optional = True, readonly = False\<rparr>, TString)] None)
       (TObject [(KName ''a'', \<lparr>optional = True, readonly = False\<rparr>, TString),
                 (KName ''b'', \<lparr>optional = True, readonly = False\<rparr>, TString)] None)) \<and>
   assignable (the (SomeRequired OptA {KName ''a''})) [] \<and>
   assignable (the (SomeRequired OptA {KName ''a''})) [(KName ''b'', str ''x'')]"
  by (simp add: assignable_def SomeRequired_def keyof_def Pick_def Partial_def OptA_def
      required_def object_members_def str_def)

text \<open>
  C10. For every object shape \<open>T\<close>, \<open>SomeRequired\<close> with all the member names of \<open>T\<close>
  resolves to a type that accepts exactly the values that \<open>T\<close> accepts.
\<close>

theorem SomeRequired_all_keys:
  "\<exists>S. SomeRequired T (set (keyof T)) = Some S \<and>
       (\<forall>v. accepts S v = accepts (TObject T None) v)"
  using members_Partial [of _ T]
  by (auto simp: SomeRequired_def Pick_all accepts_closed_shape simp del: accepts.simps(11))

theorem SomeRequired_all_keys_witness:
  "accepts (the (SomeRequired Test (set (keyof Test))))
     (obj [(KName ''foo'', str ''1''), (KName ''bar'', str ''2''), (KName ''baz'', str ''3'')]) \<and>
   accepts (TObject Test None)
     (obj [(KName ''foo'', str ''1''), (KName ''bar'', str ''2''), (KName ''baz'', str ''3'')]) \<and>
   \<not> accepts (the (SomeRequired Test (set (keyof Test)))) (obj [(KName ''foo'', str ''1'')]) \<and>
   \<not> accepts (TObject Test None) (obj [(KName ''foo'', str ''1'')])"
proof -
  have 1: "accepts (TObject Test None)
     (obj [(KName ''foo'', str ''1''), (KName ''bar'', str ''2''), (KName ''baz'', str ''3'')])"
    by (simp add: Test_def obj_def str_def required_def)
  have 2: "\<not> accepts (TObject Test None) (obj [(KName ''foo'', str ''1'')])"
    by (simp add: Test_def obj_def str_def required_def)
  from SomeRequired_all_keys [of Test] obtain S where
    "SomeRequired Test (set (keyof Test)) = Some S"
    "\<forall>v. accepts S v = accepts (TObject Test None) v"
    by blast
  with 1 2 show ?thesis by simp
qed

section \<open>Selective optionality\<close>




section \<open>Serialized values\<close>

text \<open>
  C6. For every type \<open>T\<close>: a raw string is accepted by \<^verbatim>\<open>string\<close> and rejected by
  \<open>Serialized T\<close>, as is every value that does not carry the brand member; and every
  value accepted by \<open>Serialized T\<close> is accepted by \<^verbatim>\<open>string\<close>.
\<close>

theorem Serialized_tagging:
  "accepts TString (str s) \<and>
   \<not> accepts (Serialized T) (str s) \<and>
   (\<forall>v. map_of (members_of v) brand = None \<longrightarrow> \<not> accepts (Serialized T) v) \<and>
   (\<forall>v. accepts (Serialized T) v \<longrightarrow> accepts TString v)"
  by (simp add: Serialized_def Brand_def str_def required_def)

theorem Serialized_tagging_witness:
  "accepts (Serialized TNumber) (Val (BString ''x'') [(brand, num 1)]) \<and>
   accepts TString (Val (BString ''x'') [(brand, num 1)]) \<and>
   map_of (members_of (str ''x'')) brand = None \<and>
   \<not> accepts (Serialized TNumber) (str ''x'')"
proof -
  have 1: "accepts (Serialized TNumber) (Val (BString ''x'') [(brand, num 1)])"
    by (simp add: Serialized_def Brand_def num_def required_def)
  have 2: "map_of (members_of (str ''x'')) brand = None"
    by (simp add: str_def)
  from 1 2 Serialized_tagging [of "''x''" TNumber] show ?thesis
    by blast
qed

section \<open>Open shapes\<close>



section \<open>Values of a constant object\<close>

text \<open>
  C8. For every object shape \<open>T\<close> (its member names distinct), \<open>ObjectValues T\<close>
  accepts exactly the values accepted by the type of some member of \<open>T\<close>, where the
  type of an optional member includes \<^verbatim>\<open>undefined\<close>; a constant object has no optional
  member. In particular, for \<^verbatim>\<open>{ INFO: "info", WARN: "warn" }\<close> the union accepts
  \<^verbatim>\<open>"info"\<close> and rejects \<^verbatim>\<open>"debug"\<close>.
\<close>

theorem ObjectValues_union:
  "(distinct (keyof T) \<longrightarrow>
      accepts (ObjectValues T) v =
        (\<exists>(k, m, t) \<in> set T. accepts t v \<or> (optional m \<and> accepts TUndefined v))) \<and>
   accepts (ObjectValues LogLevel) (str ''info'') \<and>
   \<not> accepts (ObjectValues LogLevel) (str ''debug'')"
proof -
  have g: "accepts (ObjectValues T) v =
        (\<exists>(k, m, t) \<in> set T. accepts t v \<or> (optional m \<and> accepts TUndefined v))"
    if "distinct (keyof T)" for T v
  proof -
    have eq: "accepts (if optional m then union_of [t, TUndefined] else t) v =
        (accepts t v \<or> (optional m \<and> accepts TUndefined v))" for m t
      by (auto simp: accepts_union_of)
    show ?thesis
      unfolding ObjectValues_members [OF that] accepts_union_of
      by (simp add: list_ex_iff Bex_def eq)
  qed
  have d: "distinct (keyof LogLevel)"
    by (simp add: keyof_def LogLevel_def)
  have 1: "accepts (ObjectValues LogLevel) (str ''info'')"
    unfolding g [OF d] by (simp add: LogLevel_def str_def)
  have 2: "\<not> accepts (ObjectValues LogLevel) (str ''debug'')"
    unfolding g [OF d] by (simp add: LogLevel_def str_def)
  from g 1 2 show ?thesis by blast
qed

theorem ObjectValues_union_witness:
  "distinct (keyof LogLevel) \<and>
   ObjectValues LogLevel = TUnion [TStringLit ''info'', TStringLit ''warn''] \<and>
   accepts (ObjectValues LogLevel) (str ''warn'') \<and>
   \<not> accepts (ObjectValues LogLevel) (num 1)"
proof -
  have d: "distinct (keyof LogLevel)"
    by (simp add: keyof_def LogLevel_def)
  have e: "ObjectValues LogLevel = TUnion [TStringLit ''info'', TStringLit ''warn'']"
    by (simp add: ObjectValues_def LogLevel_def keyof_def index_access_def union_of_def)
  have m: "(\<exists>(k, m, t) \<in> set LogLevel.
      accepts t (str ''warn'') \<or> (optional m \<and> accepts TUndefined (str ''warn'')))"
    by (simp add: LogLevel_def str_def)
  have n: "\<not> (\<exists>(k, m, t) \<in> set LogLevel.
      accepts t (num 1) \<or> (optional m \<and> accepts TUndefined (num 1)))"
    by (simp add: LogLevel_def num_def)
  from d e m n ObjectValues_union [of LogLevel "str ''warn''"]
    ObjectValues_union [of LogLevel "num 1"]
  show ?thesis by blast
qed

section \<open>Tuple to union\<close>

text \<open>
  C9. For every readonly tuple type, \<open>Unionize\<close> resolves to the union of the element
  types of the tuple: it accepts exactly the values accepted by one of them. In particular, for the literal tuple
  \<^verbatim>\<open>["foo", "bar", "baz"]\<close> the result is \<^verbatim>\<open>"foo" | "bar" | "baz"\<close>, which accepts
  \<^verbatim>\<open>"bar"\<close> and rejects \<^verbatim>\<open>"qux"\<close>.
\<close>

theorem Unionize_tuple:
  "Unionize (TTuple True ts) = union_of ts \<and>
   accepts (Unionize (TTuple True ts)) v = (\<exists>t \<in> set ts. accepts t v) \<and>
   Unionize things = TUnion [TStringLit ''foo'', TStringLit ''bar'', TStringLit ''baz''] \<and>
   accepts (Unionize things) (str ''bar'') \<and>
   \<not> accepts (Unionize things) (str ''qux'')"
proof -
  have g: "accepts (Unionize (TTuple True ts)) v = (\<exists>t \<in> set ts. accepts t v)" for ts v
    by (simp add: Unionize_def accepts_union_of list_ex_iff)
  have e: "Unionize things = TUnion [TStringLit ''foo'', TStringLit ''bar'', TStringLit ''baz'']"
    by (simp add: Unionize_def things_def union_of_def)
  have 1: "accepts (Unionize things) (str ''bar'')"
    unfolding things_def g by (simp add: str_def)
  have 2: "\<not> accepts (Unionize things) (str ''qux'')"
    unfolding things_def g by (simp add: str_def)
  have u: "Unionize (TTuple True ts) = union_of ts"
    by (simp add: Unionize_def union_of_idem)
  from u g e 1 2 show ?thesis by blast
qed

theorem Unionize_tuple_witness:
  "accepts (Unionize (TTuple True [TStringLit ''foo'', TNumberLit 123])) (num 123) \<and>
   \<not> accepts (Unionize (TTuple True [TStringLit ''foo'', TNumberLit 123])) (num 124)"
proof -
  have 1: "\<exists>t \<in> set [TStringLit ''foo'', TNumberLit 123]. accepts t (num 123)"
    by (simp add: num_def)
  have 2: "\<not> (\<exists>t \<in> set [TStringLit ''foo'', TNumberLit 123]. accepts t (num 124))"
    by (simp add: num_def)
  from 1 2 Unionize_tuple [of "[TStringLit ''foo'', TNumberLit 123]" "num 123"]
    Unionize_tuple [of "[TStringLit ''foo'', TNumberLit 123]" "num 124"]
  show ?thesis by blast
qed

text \<open>
  C3. The claim, that \<open>Unionize\<close> of a plain mutable array type is \<^verbatim>\<open>never\<close>, fails: a
  mutable array is assignable to the readonly array of the pattern, so the
  conditional takes its first branch. \<open>Unionize\<close> of \<^verbatim>\<open>string[]\<close> is \<^verbatim>\<open>string\<close>.
\<close>

theorem Unionize_mutable_array_counterexample:
  "Unionize (TArray False TString) = TString \<and> Unionize (TArray False TString) \<noteq> TNever"
  by (simp add: Unionize_def union_of_def)

text \<open>
  C3, amended. For every plain mutable array type, \<open>Unionize\<close> resolves to the element
  type of the array, as it does for the readonly array: it accepts exactly the values
  that the element type accepts.
\<close>

theorem Unionize_mutable_array:
  "Unionize (TArray False E) = union_of [E] \<and>
   Unionize (TArray False E) = Unionize (TArray True E) \<and>
   (\<forall>v. accepts (Unionize (TArray False E)) v = accepts E v)"
  by (simp add: Unionize_def accepts_union_of)

theorem Unionize_mutable_array_witness:
  "Unionize (TArray False (TUnion [TString, TNumber, TNull])) = TUnion [TString, TNumber, TNull] \<and>
   accepts (Unionize (TArray False (TUnion [TString, TNumber, TNull]))) (num 123)"
proof -
  have 1: "union_of [TUnion [TString, TNumber, TNull]] = TUnion [TString, TNumber, TNull]"
    by (simp add: union_of_def)
  have 2: "accepts (TUnion [TString, TNumber, TNull]) (num 123)"
    by (simp add: num_def)
  from 1 2 Unionize_mutable_array [of "TUnion [TString, TNumber, TNull]"]
  show ?thesis by simp
qed

text \<open>
  C4. \<open>Unionize\<close> is said to resolve to \<^verbatim>\<open>never\<close> for every type that is not an array or
  tuple type. The code does not do that for a union with an array member: the
  conditional distributes over the union, \<^verbatim>\<open>string | number[]\<close> is not a sequence type,
  and \<open>Unionize\<close> of it is \<^verbatim>\<open>number\<close>.
\<close>

theorem Unionize_union_with_array:
  "\<not> is_sequence (TUnion [TString, TArray False TNumber]) \<and>
   Unionize (TUnion [TString, TArray False TNumber]) = TNumber \<and>
   Unionize (TUnion [TString, TArray False TNumber]) \<noteq> TNever"
  by (simp add: Unionize_def union_of_def)

end
